theory Spec2Isabelle
  imports Main
begin

section \<open>Python values and exceptions\<close>

text \<open>
  The values that flow through \<^verbatim>\<open>trol/property.py\<close>. \<open>PNull\<close> is the singleton
  \<^verbatim>\<open>Property.null\<close> (the one instance of \<^verbatim>\<open>Property.Null\<close> created in the class
  body); \<open>PNone\<close> is Python's \<^verbatim>\<open>None\<close>. The source compares against both with
  \<^verbatim>\<open>is\<close>, which is equality of constructors here.
\<close>

datatype pyval =
    PNone
  | PNull
  | PBool bool
  | PInt int
  | PStr string
  | PBytes string

text \<open>
  Python truth testing, as used by \<^verbatim>\<open>if ok:\<close> and by the \<^verbatim>\<open>or\<close>/\<^verbatim>\<open>and\<close> of the
  policy expressions. \<^verbatim>\<open>Property.Null\<close> defines neither \<^verbatim>\<open>__bool__\<close> nor
  \<^verbatim>\<open>__len__\<close>, so its instance is true.
\<close>

fun truthy :: "pyval \<Rightarrow> bool" where
  "truthy PNone = False"
| "truthy PNull = True"
| "truthy (PBool b) = b"
| "truthy (PInt i) = (i \<noteq> 0)"
| "truthy (PStr s) = (s \<noteq> [])"
| "truthy (PBytes s) = (s \<noteq> [])"

type_synonym exn = string

text \<open>
  Exceptions: \<open>RedisKeyError\<close> is the one the module raises itself,
  \<open>AttributeError\<close> is what \<^verbatim>\<open>getattr\<close> without a default raises, and
  \<open>External\<close> is any exception raised by the store client or by the codec, which the
  module neither catches nor translates.
\<close>

datatype error =
    RedisKeyError string
  | AttributeError string
  | External exn

fun lift_exn :: "exn + 'a \<Rightarrow> error + 'a" where
  "lift_exn (Inl e) = Inl (External e)"
| "lift_exn (Inr v) = Inr v"

section \<open>The collaborators: store client and owner\<close>

text \<open>
  The client behind \<^verbatim>\<open>obj.redis\<close> is not part of the module; it is a parameter. Each
  method takes the store's state and returns its answer, or the exception it raised,
  together with the store's new state.
\<close>

record 's client =
  redis_get :: "string \<Rightarrow> 's \<Rightarrow> (exn + pyval) \<times> 's"
  redis_set :: "string \<Rightarrow> pyval \<Rightarrow> 's \<Rightarrow> (exn + pyval) \<times> 's"
  redis_delete :: "string \<Rightarrow> 's \<Rightarrow> (exn + pyval) \<times> 's"
  redis_exists :: "string \<Rightarrow> 's \<Rightarrow> (exn + pyval) \<times> 's"

datatype call =
    Get string
  | Set string pyval
  | Delete string
  | Exists string

text \<open>
  The holder object \<^verbatim>\<open>obj\<close>: its \<^verbatim>\<open>key\<close> (\<open>None\<close> is Python's \<^verbatim>\<open>None\<close>), its other
  attributes by name (where \<^verbatim>\<open>setattr\<close> writes and \<^verbatim>\<open>getattr\<close> reads), the state of
  the store behind \<^verbatim>\<open>obj.redis\<close>, and the calls made on \<^verbatim>\<open>obj.redis\<close> so far, oldest
  first.
\<close>

record 's owner =
  obj_key :: "string option"
  obj_attrs :: "string \<rightharpoonup> pyval"
  obj_redis :: "'s"
  obj_calls :: "call list"

type_synonym ('s, 'a) outcome = "(error + 'a) \<times> 's owner"

definition py_getattr :: "'s owner \<Rightarrow> string \<Rightarrow> error + pyval" where
  "py_getattr obj n =
     (case obj_attrs obj n of None \<Rightarrow> Inl (AttributeError n) | Some v \<Rightarrow> Inr v)"

definition py_getattr_default :: "'s owner \<Rightarrow> string \<Rightarrow> pyval \<Rightarrow> pyval" where
  "py_getattr_default obj n d =
     (case obj_attrs obj n of None \<Rightarrow> d | Some v \<Rightarrow> v)"

definition py_setattr :: "'s owner \<Rightarrow> string \<Rightarrow> pyval \<Rightarrow> 's owner" where
  "py_setattr obj n v = obj\<lparr>obj_attrs := (obj_attrs obj)(n \<mapsto> v)\<rparr>"

definition call_get :: "'s client \<Rightarrow> string \<Rightarrow> 's owner \<Rightarrow> ('s, pyval) outcome" where
  "call_get R k obj =
     (case redis_get R k (obj_redis obj) of
        (r, s) \<Rightarrow> (lift_exn r, obj\<lparr>obj_redis := s, obj_calls := obj_calls obj @ [Get k]\<rparr>))"

definition call_set :: "'s client \<Rightarrow> string \<Rightarrow> pyval \<Rightarrow> 's owner \<Rightarrow> ('s, pyval) outcome" where
  "call_set R k b obj =
     (case redis_set R k b (obj_redis obj) of
        (r, s) \<Rightarrow> (lift_exn r, obj\<lparr>obj_redis := s, obj_calls := obj_calls obj @ [Set k b]\<rparr>))"

definition call_delete :: "'s client \<Rightarrow> string \<Rightarrow> 's owner \<Rightarrow> ('s, pyval) outcome" where
  "call_delete R k obj =
     (case redis_delete R k (obj_redis obj) of
        (r, s) \<Rightarrow> (lift_exn r, obj\<lparr>obj_redis := s, obj_calls := obj_calls obj @ [Delete k]\<rparr>))"

definition call_exists :: "'s client \<Rightarrow> string \<Rightarrow> 's owner \<Rightarrow> ('s, pyval) outcome" where
  "call_exists R k obj =
     (case redis_exists R k (obj_redis obj) of
        (r, s) \<Rightarrow> (lift_exn r, obj\<lparr>obj_redis := s, obj_calls := obj_calls obj @ [Exists k]\<rparr>))"

section \<open>The class \<^verbatim>\<open>Property\<close>\<close>

text \<open>
  What \<^verbatim>\<open>__init__\<close> stores. \<open>name\<close> is the name once assigned (a \<^verbatim>\<open>str\<close>, by the
  constructor or by the metaclass of the holder's class); the two flags are \<^verbatim>\<open>None\<close>,
  \<^verbatim>\<open>True\<close> or \<^verbatim>\<open>False\<close> in intended use and any value in general; the codec is
  whatever \<^verbatim>\<open>__init__\<close> selected, and may raise.
\<close>

record property =
  name :: "string"
  autocommit :: "pyval"
  alwaysfetch :: "pyval"
  serialize :: "pyval \<Rightarrow> exn + pyval"
  deserialize :: "pyval \<Rightarrow> exn + pyval"

definition mangle :: "string \<Rightarrow> string" where
  "mangle n = ''_trol_property_'' @ n"

text \<open>\<^verbatim>\<open>Property.set\<close>: \<^verbatim>\<open>setattr(obj, self.mangle(self.name), value)\<close>.\<close>

definition set_local :: "property \<Rightarrow> 's owner \<Rightarrow> pyval \<Rightarrow> 's owner" where
  "set_local p obj v = py_setattr obj (mangle (name p)) v"

text \<open>
  \<^verbatim>\<open>Property.value\<close>: the \<^verbatim>\<open>try\<close> reads the mangled attribute, the \<^verbatim>\<open>except\<close>
  clause catches \<^verbatim>\<open>AttributeError\<close> only.
\<close>

definition value_of :: "property \<Rightarrow> 's owner \<Rightarrow> ('s, pyval) outcome" where
  "value_of p obj =
     (case py_getattr obj (mangle (name p)) of
        Inr v \<Rightarrow> (Inr v, obj)
      | Inl (AttributeError _) \<Rightarrow> (Inr PNull, set_local p obj PNull)
      | Inl e \<Rightarrow> (Inl e, obj))"

text \<open>\<^verbatim>\<open>Property.key\<close>.\<close>

definition key :: "property \<Rightarrow> 's owner \<Rightarrow> string" where
  "key p obj =
     (case obj_key obj of
        Some k \<Rightarrow> k @ '':'' @ name p
      | None \<Rightarrow> name p)"

text \<open>\<^verbatim>\<open>Property.fetch\<close>.\<close>

definition fetch :: "'s client \<Rightarrow> property \<Rightarrow> 's owner \<Rightarrow> ('s, pyval) outcome" where
  "fetch R p obj =
     (case call_get R (key p obj) obj of
        (Inl e, obj1) \<Rightarrow> (Inl e, obj1)
      | (Inr response, obj1) \<Rightarrow>
          (if response \<noteq> PNone then
             (case deserialize p response of
                Inl e \<Rightarrow> (Inl (External e), obj1)
              | Inr v \<Rightarrow> (Inr v, set_local p obj1 v))
           else (Inr PNull, set_local p obj1 PNull)))"

text \<open>
  \<^verbatim>\<open>Property.commit\<close>. The source calls \<^verbatim>\<open>self.value(obj)\<close> twice: once for the
  value to write and once more for the test.
\<close>

definition commit :: "'s client \<Rightarrow> property \<Rightarrow> 's owner \<Rightarrow> ('s, pyval) outcome" where
  "commit R p obj =
     (case value_of p obj of
        (Inl e, obj1) \<Rightarrow> (Inl e, obj1)
      | (Inr v, obj1) \<Rightarrow>
          (case value_of p obj1 of
             (Inl e, obj2) \<Rightarrow> (Inl e, obj2)
           | (Inr v2, obj2) \<Rightarrow>
               (if v2 = PNull then (Inr (PBool True), obj2)
                else
                  (case serialize p v of
                     Inl e \<Rightarrow> (Inl (External e), obj2)
                   | Inr b \<Rightarrow> call_set R (key p obj2) b obj2))))"

text \<open>\<^verbatim>\<open>Property.delete\<close>.\<close>

definition delete :: "'s client \<Rightarrow> property \<Rightarrow> 's owner \<Rightarrow> ('s, pyval) outcome" where
  "delete R p obj =
     (case call_delete R (key p obj) obj of
        (Inl e, obj1) \<Rightarrow> (Inl e, obj1)
      | (Inr ok, obj1) \<Rightarrow>
          (if truthy ok then (Inr ok, set_local p obj1 PNone)
           else (Inr ok, obj1)))"

text \<open>\<^verbatim>\<open>Property.exists\<close>.\<close>

definition exists :: "'s client \<Rightarrow> property \<Rightarrow> 's owner \<Rightarrow> ('s, pyval) outcome" where
  "exists R p obj = call_exists R (key p obj) obj"

text \<open>\<^verbatim>\<open>Property.invalidate\<close>.\<close>

definition invalidate :: "property \<Rightarrow> 's owner \<Rightarrow> 's owner" where
  "invalidate p obj = set_local p obj PNull"

text \<open>
  The condition of \<^verbatim>\<open>__get__\<close> after \<^verbatim>\<open>value is self.null\<close>:
  \<^verbatim>\<open>self.alwaysfetch or (self.alwaysfetch is None and getattr(obj, 'alwaysfetch', False))\<close>.
\<close>

definition alwaysfetch_policy :: "property \<Rightarrow> 's owner \<Rightarrow> bool" where
  "alwaysfetch_policy p obj \<longleftrightarrow>
     truthy (alwaysfetch p) \<or>
     (alwaysfetch p = PNone \<and> truthy (py_getattr_default obj ''alwaysfetch'' (PBool False)))"

text \<open>
  The condition of \<^verbatim>\<open>__set__\<close>:
  \<^verbatim>\<open>self.autocommit or (self.autocommit is None and getattr(obj, 'autocommit', True))\<close>.
\<close>

definition autocommit_policy :: "property \<Rightarrow> 's owner \<Rightarrow> bool" where
  "autocommit_policy p obj \<longleftrightarrow>
     truthy (autocommit p) \<or>
     (autocommit p = PNone \<and> truthy (py_getattr_default obj ''autocommit'' (PBool True)))"

text \<open>
  \<^verbatim>\<open>Property.__get__\<close> on an instance. (With \<^verbatim>\<open>obj is None\<close>, access through the
  class, the source returns the descriptor itself before anything else; see
  \<open>get_descr\<close>.)
\<close>

definition get_bound :: "'s client \<Rightarrow> property \<Rightarrow> 's owner \<Rightarrow> ('s, pyval) outcome" where
  "get_bound R p obj =
     (case value_of p obj of
        (Inl e, obj1) \<Rightarrow> (Inl e, obj1)
      | (Inr v, obj1) \<Rightarrow>
          (case (if v = PNull \<or> alwaysfetch_policy p obj1 then fetch R p obj1
                 else (Inr v, obj1)) of
             (Inl e, obj2) \<Rightarrow> (Inl e, obj2)
           | (Inr v', obj2) \<Rightarrow>
               (if v' = PNull then (Inl (RedisKeyError (key p obj2)), obj2)
                else (Inr v', obj2))))"

datatype 's got = Descriptor property | Outcome "('s, pyval) outcome"

definition get_descr :: "'s client \<Rightarrow> property \<Rightarrow> 's owner option \<Rightarrow> 's got" where
  "get_descr R p obj =
     (case obj of
        None \<Rightarrow> Descriptor p
      | Some ob \<Rightarrow> Outcome (get_bound R p ob))"

text \<open>\<^verbatim>\<open>Property.__set__\<close>; it returns nothing, and drops what \<^verbatim>\<open>commit\<close> returns.\<close>

definition set_descr :: "'s client \<Rightarrow> property \<Rightarrow> 's owner \<Rightarrow> pyval \<Rightarrow> ('s, unit) outcome" where
  "set_descr R p obj v =
     (let obj1 = set_local p obj v in
      if autocommit_policy p obj1 then
        (case commit R p obj1 of
           (Inl e, obj2) \<Rightarrow> (Inl e, obj2)
         | (Inr _, obj2) \<Rightarrow> (Inr (), obj2))
      else (Inr (), obj1))"

text \<open>The holder's mangled attribute for a property, if it has been created.\<close>

abbreviation slot :: "property \<Rightarrow> 's owner \<Rightarrow> pyval option" where
  "slot p obj \<equiv> obj_attrs obj (mangle (name p))"

section \<open>An in-memory store and sample objects\<close>

text \<open>
  A dictionary-backed client with the answers of a Redis client: \<^verbatim>\<open>get\<close> gives the
  stored bytes or \<^verbatim>\<open>None\<close>, \<^verbatim>\<open>set\<close> gives \<^verbatim>\<open>True\<close>, \<^verbatim>\<open>delete\<close> and
  \<^verbatim>\<open>exists\<close> give the number of keys found. It is used to run the operations on
  concrete objects.
\<close>

definition dict_client :: "(string \<rightharpoonup> pyval) client" where
  "dict_client =
     \<lparr> redis_get = (\<lambda>k s. (Inr (case s k of None \<Rightarrow> PNone | Some b \<Rightarrow> b), s)),
       redis_set = (\<lambda>k b s. (Inr (PBool True), s(k \<mapsto> b))),
       redis_delete = (\<lambda>k s. (Inr (PInt (if s k = None then 0 else 1)), s(k := None))),
       redis_exists = (\<lambda>k s. (Inr (PInt (if s k = None then 0 else 1)), s)) \<rparr>"

text \<open>A property named \<open>score\<close> with both flags left at \<^verbatim>\<open>None\<close> and a pass-through codec.\<close>

definition score :: property where
  "score = \<lparr> name = ''score'', autocommit = PNone, alwaysfetch = PNone,
             serialize = Inr, deserialize = Inr \<rparr>"

text \<open>A holder with key \<open>user:42\<close>, no attributes yet, and a store holding its score.\<close>

definition user42 :: "(string \<rightharpoonup> pyval) owner" where
  "user42 = \<lparr> obj_key = Some ''user:42'', obj_attrs = Map.empty,
              obj_redis = [''user:42:score'' \<mapsto> PBytes ''7''], obj_calls = [] \<rparr>"

text \<open>A holder without a key and with an empty store.\<close>

definition anon :: "(string \<rightharpoonup> pyval) owner" where
  "anon = \<lparr> obj_key = None, obj_attrs = Map.empty,
            obj_redis = Map.empty, obj_calls = [] \<rparr>"

section \<open>Basic facts\<close>

lemma mangle_not_flag [simp]:
  "mangle n \<noteq> ''alwaysfetch''" "mangle n \<noteq> ''autocommit''"
  "''alwaysfetch'' \<noteq> mangle n" "''autocommit'' \<noteq> mangle n"
  by (simp_all add: mangle_def)

lemma key_set_local [simp]: "key p (set_local p' obj v) = key p obj"
  by (simp add: key_def set_local_def py_setattr_def)

section \<open>The local slot\<close>

lemma value_of_eq:
  "value_of p obj =
     (case slot p obj of
        Some v \<Rightarrow> (Inr v, obj)
      | None \<Rightarrow> (Inr PNull, set_local p obj PNull))"
  by (simp add: value_of_def py_getattr_def split: option.split)

lemma slot_set_local [simp]: "slot p (set_local p obj v) = Some v"
  by (simp add: set_local_def py_setattr_def)

lemma set_local_frame [simp]:
  "obj_redis (set_local p obj v) = obj_redis obj"
  "obj_calls (set_local p obj v) = obj_calls obj"
  "obj_key (set_local p obj v) = obj_key obj"
  by (simp_all add: set_local_def py_setattr_def)

lemma alwaysfetch_policy_set_local [simp]:
  "alwaysfetch_policy p (set_local p' obj v) = alwaysfetch_policy p obj"
  by (simp add: alwaysfetch_policy_def py_getattr_default_def set_local_def py_setattr_def)

lemma autocommit_policy_set_local [simp]:
  "autocommit_policy p (set_local p' obj v) = autocommit_policy p obj"
  by (simp add: autocommit_policy_def py_getattr_default_def set_local_def py_setattr_def)

lemma value_of_twice: "value_of p (snd (value_of p obj)) = value_of p obj"
  by (simp add: value_of_eq split: option.split)

section \<open>Facts about delete, commit and fetch\<close>

lemma delete_eq:
  assumes "redis_delete R (key p obj) (obj_redis obj) = (r, s)"
  shows "delete R p obj =
     (case r of
        Inl e \<Rightarrow> (Inl (External e),
                    obj\<lparr>obj_redis := s, obj_calls := obj_calls obj @ [Delete (key p obj)]\<rparr>)
      | Inr ok \<Rightarrow>
          (if truthy ok
           then (Inr ok, set_local p
                   (obj\<lparr>obj_redis := s, obj_calls := obj_calls obj @ [Delete (key p obj)]\<rparr>) PNone)
           else (Inr ok,
                   obj\<lparr>obj_redis := s, obj_calls := obj_calls obj @ [Delete (key p obj)]\<rparr>)))"
  using assms by (simp add: delete_def call_delete_def split: sum.split)

lemma delete_attrs:
  "obj_attrs (snd (delete R p obj)) =
     (case fst (redis_delete R (key p obj) (obj_redis obj)) of
        Inl e \<Rightarrow> obj_attrs obj
      | Inr ok \<Rightarrow> if truthy ok then (obj_attrs obj)(mangle (name p) \<mapsto> PNone) else obj_attrs obj)"
proof (cases "redis_delete R (key p obj) (obj_redis obj)")
  case (Pair r s)
  then show ?thesis
    by (simp add: delete_eq [OF Pair] set_local_def py_setattr_def split: sum.split)
qed

lemma delete_result:
  "fst (delete R p obj) = lift_exn (fst (redis_delete R (key p obj) (obj_redis obj)))"
proof (cases "redis_delete R (key p obj) (obj_redis obj)")
  case (Pair r s)
  then show ?thesis
    by (cases r) (simp_all add: delete_eq [OF Pair])
qed

lemma delete_key [simp]: "key p (snd (delete R p obj)) = key p obj"
proof (cases "redis_delete R (key p obj) (obj_redis obj)")
  case (Pair r s)
  then show ?thesis
    by (cases r) (simp_all add: delete_eq [OF Pair] key_def set_local_def py_setattr_def)
qed

lemma delete_policy [simp]:
  "alwaysfetch_policy p (snd (delete R p obj)) = alwaysfetch_policy p obj"
  by (simp add: alwaysfetch_policy_def py_getattr_default_def delete_attrs split: sum.split)

lemma commit_eq:
  "commit R p obj =
     (case slot p obj of
        None \<Rightarrow> (Inr (PBool True), set_local p obj PNull)
      | Some v \<Rightarrow>
          (if v = PNull then (Inr (PBool True), obj)
           else
             (case serialize p v of
                Inl e \<Rightarrow> (Inl (External e), obj)
              | Inr b \<Rightarrow> call_set R (key p obj) b obj)))"
  by (simp add: commit_def value_of_eq split: option.split)

lemma call_set_frame:
  "fst (call_set R k b obj) = lift_exn (fst (redis_set R k b (obj_redis obj)))"
  "obj_redis (snd (call_set R k b obj)) = snd (redis_set R k b (obj_redis obj))"
  "obj_calls (snd (call_set R k b obj)) = obj_calls obj @ [Set k b]"
  "obj_attrs (snd (call_set R k b obj)) = obj_attrs obj"
  "obj_key (snd (call_set R k b obj)) = obj_key obj"
  by (simp_all add: call_set_def split: prod.split)

lemma delete_frame:
  "obj_redis (snd (delete R p obj)) = snd (redis_delete R (key p obj) (obj_redis obj))"
  "obj_calls (snd (delete R p obj)) = obj_calls obj @ [Delete (key p obj)]"
proof -
  obtain r s where rs: "redis_delete R (key p obj) (obj_redis obj) = (r, s)"
    by (cases "redis_delete R (key p obj) (obj_redis obj)")
  show "obj_redis (snd (delete R p obj)) = snd (redis_delete R (key p obj) (obj_redis obj))"
    by (cases r) (simp_all add: delete_eq [OF rs] rs)
  show "obj_calls (snd (delete R p obj)) = obj_calls obj @ [Delete (key p obj)]"
    by (cases r) (simp_all add: delete_eq [OF rs])
qed

lemma get_bound_cached:
  assumes "slot p obj = Some v" "v \<noteq> PNull" "\<not> alwaysfetch_policy p obj"
  shows "get_bound R p obj = (Inr v, obj)"
  using assms by (simp add: get_bound_def value_of_eq)

lemma fetch_eq:
  assumes "redis_get R (key p obj) (obj_redis obj) = (r, s)"
  shows "fetch R p obj =
     (case r of
        Inl e \<Rightarrow> (Inl (External e),
                    obj\<lparr>obj_redis := s, obj_calls := obj_calls obj @ [Get (key p obj)]\<rparr>)
      | Inr response \<Rightarrow>
          (if response = PNone
           then (Inr PNull, set_local p
                   (obj\<lparr>obj_redis := s, obj_calls := obj_calls obj @ [Get (key p obj)]\<rparr>) PNull)
           else
             (case deserialize p response of
                Inl e \<Rightarrow> (Inl (External e),
                    obj\<lparr>obj_redis := s, obj_calls := obj_calls obj @ [Get (key p obj)]\<rparr>)
              | Inr v \<Rightarrow> (Inr v, set_local p
                   (obj\<lparr>obj_redis := s, obj_calls := obj_calls obj @ [Get (key p obj)]\<rparr>) v))))"
  using assms by (simp add: fetch_def call_get_def split: sum.split)

lemma fetch_frame:
  "obj_calls (snd (fetch R p obj)) = obj_calls obj @ [Get (key p obj)]"
  "obj_redis (snd (fetch R p obj)) = snd (redis_get R (key p obj) (obj_redis obj))"
  "obj_key (snd (fetch R p obj)) = obj_key obj"
proof -
  obtain r s where rs: "redis_get R (key p obj) (obj_redis obj) = (r, s)"
    by (cases "redis_get R (key p obj) (obj_redis obj)")
  show "obj_calls (snd (fetch R p obj)) = obj_calls obj @ [Get (key p obj)]"
    by (simp add: fetch_eq [OF rs] split: sum.split)
  show "obj_redis (snd (fetch R p obj)) = snd (redis_get R (key p obj) (obj_redis obj))"
    by (simp add: fetch_eq [OF rs] rs split: sum.split)
  show "obj_key (snd (fetch R p obj)) = obj_key obj"
    by (simp add: fetch_eq [OF rs] split: sum.split)
qed

lemma fetch_key [simp]: "key p' (snd (fetch R p obj)) = key p' obj"
  by (simp add: key_def fetch_frame)

lemma fetch_returns:
  assumes "fst (fetch R p obj) = Inr v"
  shows "slot p (snd (fetch R p obj)) = Some v"
proof -
  obtain r s where rs: "redis_get R (key p obj) (obj_redis obj) = (r, s)"
    by (cases "redis_get R (key p obj) (obj_redis obj)")
  from assms show ?thesis
    by (auto simp add: fetch_eq [OF rs] split: sum.splits if_splits)
qed

lemma fetch_raises:
  assumes "fst (fetch R p obj) = Inl e"
  shows "(\<exists>x. e = External x) \<and> obj_attrs (snd (fetch R p obj)) = obj_attrs obj"
proof -
  obtain r s where rs: "redis_get R (key p obj) (obj_redis obj) = (r, s)"
    by (cases "redis_get R (key p obj) (obj_redis obj)")
  from assms show ?thesis
    by (auto simp add: fetch_eq [OF rs] split: sum.splits if_splits)
qed

lemma fetch_attrs:
  assumes "fst (redis_get R (key p obj) (obj_redis obj)) = Inr response"
  shows "obj_attrs (snd (fetch R p obj)) =
     (if response = PNone then (obj_attrs obj)(mangle (name p) \<mapsto> PNull)
      else (case deserialize p response of
              Inl e \<Rightarrow> obj_attrs obj
            | Inr v \<Rightarrow> (obj_attrs obj)(mangle (name p) \<mapsto> v)))"
    and "fst (fetch R p obj) =
     (if response = PNone then Inr PNull else lift_exn (deserialize p response))"
proof -
  obtain r s where rs: "redis_get R (key p obj) (obj_redis obj) = (r, s)"
    by (cases "redis_get R (key p obj) (obj_redis obj)")
  with assms have r: "r = Inr response" by simp
  show "obj_attrs (snd (fetch R p obj)) =
     (if response = PNone then (obj_attrs obj)(mangle (name p) \<mapsto> PNull)
      else (case deserialize p response of
              Inl e \<Rightarrow> obj_attrs obj
            | Inr v \<Rightarrow> (obj_attrs obj)(mangle (name p) \<mapsto> v)))"
    by (simp add: fetch_eq [OF rs] r set_local_def py_setattr_def split: sum.split)
  show "fst (fetch R p obj) =
     (if response = PNone then Inr PNull else lift_exn (deserialize p response))"
    by (simp add: fetch_eq [OF rs] r split: sum.split)
qed

lemma commit_attrs_present:
  assumes "slot p obj = Some v"
  shows "obj_attrs (snd (commit R p obj)) = obj_attrs obj"
  using assms by (simp add: commit_eq call_set_frame split: sum.split)

lemma commit_loaded:
  assumes "slot p obj = Some v" "v \<noteq> PNull" "serialize p v = Inr b"
  shows "commit R p obj = call_set R (key p obj) b obj"
  using assms by (simp add: commit_eq)

lemma set_descr_eq:
  "set_descr R p obj v =
     (if autocommit_policy p obj
      then (map_sum id (\<lambda>_. ()) (fst (commit R p (set_local p obj v))),
            snd (commit R p (set_local p obj v)))
      else (Inr (), set_local p obj v))"
  by (simp add: set_descr_def split: prod.split sum.split)

section \<open>Key composition\<close>

text \<open>
  C3. \<open>key\<close> returns the holder's key, a colon and the property's name when the holder's
  key is not \<^verbatim>\<open>None\<close>, and the name alone when it is. It is a function of the
  property and the holder's key only: it returns no new holder state, and two holders
  with the same key get the same result, whatever the rest of their state.
\<close>

theorem key_composition:
  "(obj_key obj = Some k \<longrightarrow> key p obj = k @ '':'' @ name p) \<and>
   (obj_key obj = None \<longrightarrow> key p obj = name p) \<and>
   (obj_key obj' = obj_key obj \<longrightarrow> key p obj' = key p obj)"
  by (simp add: key_def)

theorem key_composition_witness:
  "key score user42 = ''user:42:score'' \<and> key score anon = ''score'' \<and>
   key score (set_local score user42 (PInt 3)) = ''user:42:score''"
  using key_composition [of user42 "''user:42''" score "set_local score user42 (PInt 3)"]
    key_composition [of anon "''''" score anon]
  by (simp add: score_def user42_def anon_def set_local_def py_setattr_def)

section \<open>The local accessor\<close>

text \<open>
  C9. \<open>value_of\<close> returns a value and never an exception, whatever the holder's
  attributes. When the holder has no mangled attribute for the property, it returns the
  null indicator, stores it in the mangled attribute, changes no other attribute, and
  makes no call on the store; a later call returns the stored value and changes nothing.
  When the attribute exists, its value is returned and the holder is unchanged.
\<close>

theorem value_lazy_init:
  "(\<exists>v. fst (value_of p obj) = Inr v) \<and>
   (slot p obj = None \<longrightarrow>
      fst (value_of p obj) = Inr PNull \<and>
      obj_attrs (snd (value_of p obj)) = (obj_attrs obj)(mangle (name p) \<mapsto> PNull) \<and>
      obj_redis (snd (value_of p obj)) = obj_redis obj \<and>
      obj_calls (snd (value_of p obj)) = obj_calls obj \<and>
      obj_key (snd (value_of p obj)) = obj_key obj) \<and>
   (\<forall>v. slot p obj = Some v \<longrightarrow> value_of p obj = (Inr v, obj)) \<and>
   value_of p (snd (value_of p obj)) = (fst (value_of p obj), snd (value_of p obj))"
proof -
  have total: "\<exists>v. fst (value_of p obj) = Inr v"
    by (simp add: value_of_eq split: option.split)
  have first: "slot p obj = None \<longrightarrow>
      fst (value_of p obj) = Inr PNull \<and>
      obj_attrs (snd (value_of p obj)) = (obj_attrs obj)(mangle (name p) \<mapsto> PNull) \<and>
      obj_redis (snd (value_of p obj)) = obj_redis obj \<and>
      obj_calls (snd (value_of p obj)) = obj_calls obj \<and>
      obj_key (snd (value_of p obj)) = obj_key obj"
    by (simp add: value_of_eq set_local_def py_setattr_def)
  have later: "\<forall>v. slot p obj = Some v \<longrightarrow> value_of p obj = (Inr v, obj)"
    by (simp add: value_of_eq)
  have again: "value_of p (snd (value_of p obj)) = (fst (value_of p obj), snd (value_of p obj))"
    by (simp add: value_of_twice)
  from total first later again show ?thesis by blast
qed

theorem value_lazy_init_witness:
  "slot score user42 = None \<and>
   fst (value_of score user42) = Inr PNull \<and>
   slot score (snd (value_of score user42)) = Some PNull \<and>
   obj_calls (snd (value_of score user42)) = [] \<and>
   fst (value_of score (snd (value_of score user42))) = Inr PNull"
proof -
  have absent: "slot score user42 = None"
    by (simp add: user42_def)
  have calls: "obj_calls user42 = []"
    by (simp add: user42_def)
  from value_lazy_init [of score user42] absent calls show ?thesis
    by simp
qed

section \<open>Policy resolution\<close>

text \<open>
  C4. The conditions that \<open>get_bound\<close> and \<open>set_descr\<close> test resolve in three
  levels. A flag of the property that is \<^verbatim>\<open>True\<close> or \<^verbatim>\<open>False\<close> decides by itself,
  whatever the holder says. A flag that is \<^verbatim>\<open>None\<close> defers to the holder's attribute
  of the same name, read for its truth value. When the holder has no such attribute, the
  default applies: true for autocommit, false for alwaysfetch.
\<close>

theorem policy_fallback:
  "(autocommit p = PBool b \<longrightarrow> autocommit_policy p obj = b) \<and>
   (autocommit p = PNone \<and> obj_attrs obj ''autocommit'' = Some v \<longrightarrow>
      autocommit_policy p obj = truthy v) \<and>
   (autocommit p = PNone \<and> obj_attrs obj ''autocommit'' = None \<longrightarrow>
      autocommit_policy p obj = True) \<and>
   (alwaysfetch p = PBool b \<longrightarrow> alwaysfetch_policy p obj = b) \<and>
   (alwaysfetch p = PNone \<and> obj_attrs obj ''alwaysfetch'' = Some v \<longrightarrow>
      alwaysfetch_policy p obj = truthy v) \<and>
   (alwaysfetch p = PNone \<and> obj_attrs obj ''alwaysfetch'' = None \<longrightarrow>
      alwaysfetch_policy p obj = False)"
  by (simp add: autocommit_policy_def alwaysfetch_policy_def py_getattr_default_def)

theorem policy_fallback_witness:
  "\<not> autocommit_policy (score\<lparr>autocommit := PBool False\<rparr>)
       (user42\<lparr>obj_attrs := [''autocommit'' \<mapsto> PBool True]\<rparr>) \<and>
   \<not> autocommit_policy score (user42\<lparr>obj_attrs := [''autocommit'' \<mapsto> PBool False]\<rparr>) \<and>
   autocommit_policy score user42 \<and>
   alwaysfetch_policy (score\<lparr>alwaysfetch := PBool True\<rparr>)
       (user42\<lparr>obj_attrs := [''alwaysfetch'' \<mapsto> PBool False]\<rparr>) \<and>
   alwaysfetch_policy score (user42\<lparr>obj_attrs := [''alwaysfetch'' \<mapsto> PBool True]\<rparr>) \<and>
   \<not> alwaysfetch_policy score user42"
  using
    policy_fallback [of "score\<lparr>autocommit := PBool False\<rparr>" False
      "user42\<lparr>obj_attrs := [''autocommit'' \<mapsto> PBool True]\<rparr>" PNone]
    policy_fallback [of score False
      "user42\<lparr>obj_attrs := [''autocommit'' \<mapsto> PBool False]\<rparr>" "PBool False"]
    policy_fallback [of score False user42 PNone]
    policy_fallback [of "score\<lparr>alwaysfetch := PBool True\<rparr>" True
      "user42\<lparr>obj_attrs := [''alwaysfetch'' \<mapsto> PBool False]\<rparr>" PNone]
    policy_fallback [of score False
      "user42\<lparr>obj_attrs := [''alwaysfetch'' \<mapsto> PBool True]\<rparr>" "PBool True"]
  by (simp add: score_def user42_def)

section \<open>Delete\<close>

text \<open>
  C7. When the store does not answer the delete with a true value (it answers with a
  false one, or raises), \<open>delete\<close> leaves every attribute of the holder as it was; in
  particular the property's slot is neither created nor reset, and \<open>value_of\<close> reads
  what it read before. The answer of the store is passed on as the result.
\<close>

theorem delete_failure_keeps_cache:
  assumes "\<not> (\<exists>ok. fst (redis_delete R (key p obj) (obj_redis obj)) = Inr ok \<and> truthy ok)"
  shows "obj_attrs (snd (delete R p obj)) = obj_attrs obj \<and>
         slot p (snd (delete R p obj)) = slot p obj \<and>
         fst (value_of p (snd (delete R p obj))) = fst (value_of p obj) \<and>
         fst (delete R p obj) = lift_exn (fst (redis_delete R (key p obj) (obj_redis obj)))"
proof -
  have attrs: "obj_attrs (snd (delete R p obj)) = obj_attrs obj"
    using assms by (simp add: delete_attrs split: sum.split)
  then have "fst (value_of p (snd (delete R p obj))) = fst (value_of p obj)"
    by (simp add: value_of_eq split: option.split)
  with attrs show ?thesis
    by (simp add: delete_result)
qed

theorem delete_failure_keeps_cache_witness:
  "fst (redis_delete dict_client (key score (set_local score anon (PInt 5)))
          (obj_redis (set_local score anon (PInt 5)))) = Inr (PInt 0) \<and>
   fst (delete dict_client score (set_local score anon (PInt 5))) = Inr (PInt 0) \<and>
   slot score (snd (delete dict_client score (set_local score anon (PInt 5)))) = Some (PInt 5)"
proof -
  have answer: "fst (redis_delete dict_client (key score (set_local score anon (PInt 5)))
          (obj_redis (set_local score anon (PInt 5)))) = Inr (PInt 0)"
    by (simp add: dict_client_def anon_def key_def)
  then have "\<not> (\<exists>ok. fst (redis_delete dict_client (key score (set_local score anon (PInt 5)))
          (obj_redis (set_local score anon (PInt 5)))) = Inr ok \<and> truthy ok)"
    by simp
  from delete_failure_keeps_cache [OF this] answer show ?thesis
    by simp
qed

text \<open>
  C1, as the claim is written, fails: after a delete that the store answers with a true
  value the slot holds \<^verbatim>\<open>None\<close>, which is not the null indicator, so with
  alwaysfetch resolving to false \<open>get_bound\<close> neither fetches nor raises; it returns
  \<^verbatim>\<open>None\<close>. Here the property and the holder leave alwaysfetch unset and the store
  holds the key.
\<close>

theorem delete_then_read_counterexample:
  "fst (delete dict_client score user42) = Inr (PInt 1) \<and>
   \<not> alwaysfetch_policy score (snd (delete dict_client score user42)) \<and>
   fst (get_bound dict_client score (snd (delete dict_client score user42))) = Inr PNone \<and>
   fst (get_bound dict_client score (snd (delete dict_client score user42)))
     \<noteq> Inl (RedisKeyError (key score user42))"
proof -
  have answer: "redis_delete dict_client (key score user42) (obj_redis user42)
      = (Inr (PInt 1), (obj_redis user42)(key score user42 := None))"
    by (simp add: dict_client_def user42_def key_def score_def)
  have policy: "\<not> alwaysfetch_policy score user42"
    by (simp add: alwaysfetch_policy_def py_getattr_default_def score_def user42_def)
  have slot: "slot score (snd (delete dict_client score user42)) = Some PNone"
    by (simp add: delete_attrs answer)
  have "get_bound dict_client score (snd (delete dict_client score user42))
      = (Inr PNone, snd (delete dict_client score user42))"
    using slot policy by (simp add: get_bound_cached)
  then show ?thesis
    using policy by (simp add: delete_result answer)
qed

text \<open>
  C1, amended. When the store answers the delete with a true value, \<open>delete\<close> returns
  that answer and the slot holds \<^verbatim>\<open>None\<close>; a read that follows, with alwaysfetch
  resolving to false, returns \<^verbatim>\<open>None\<close>, raises nothing, and makes no call on the
  store. When the store answers with a false value, \<open>delete\<close> returns that answer and
  the holder's attributes are unchanged.
\<close>

theorem delete_then_read:
  assumes "fst (redis_delete R (key p obj) (obj_redis obj)) = Inr ok"
  shows "fst (delete R p obj) = Inr ok \<and>
         (truthy ok \<longrightarrow>
            slot p (snd (delete R p obj)) = Some PNone \<and>
            (\<not> alwaysfetch_policy p obj \<longrightarrow>
               get_bound R p (snd (delete R p obj)) = (Inr PNone, snd (delete R p obj)))) \<and>
         (\<not> truthy ok \<longrightarrow> obj_attrs (snd (delete R p obj)) = obj_attrs obj)"
proof -
  have result: "fst (delete R p obj) = Inr ok"
    using assms by (simp add: delete_result)
  have failure: "\<not> truthy ok \<longrightarrow> obj_attrs (snd (delete R p obj)) = obj_attrs obj"
    using assms by (simp add: delete_attrs)
  have success: "truthy ok \<longrightarrow>
            slot p (snd (delete R p obj)) = Some PNone \<and>
            (\<not> alwaysfetch_policy p obj \<longrightarrow>
               get_bound R p (snd (delete R p obj)) = (Inr PNone, snd (delete R p obj)))"
  proof
    assume ok: "truthy ok"
    then have slot: "slot p (snd (delete R p obj)) = Some PNone"
      using assms by (simp add: delete_attrs)
    have "\<not> alwaysfetch_policy p obj \<longrightarrow>
               get_bound R p (snd (delete R p obj)) = (Inr PNone, snd (delete R p obj))"
      using slot by (simp add: get_bound_cached)
    with slot show "slot p (snd (delete R p obj)) = Some PNone \<and>
            (\<not> alwaysfetch_policy p obj \<longrightarrow>
               get_bound R p (snd (delete R p obj)) = (Inr PNone, snd (delete R p obj)))"
      by simp
  qed
  from result success failure show ?thesis by simp
qed

theorem delete_then_read_witness:
  "fst (redis_delete dict_client (key score user42) (obj_redis user42)) = Inr (PInt 1) \<and>
   truthy (PInt 1) \<and> \<not> alwaysfetch_policy score user42 \<and>
   fst (delete dict_client score user42) = Inr (PInt 1) \<and>
   slot score (snd (delete dict_client score user42)) = Some PNone \<and>
   fst (get_bound dict_client score (snd (delete dict_client score user42))) = Inr PNone \<and>
   obj_calls (snd (get_bound dict_client score (snd (delete dict_client score user42))))
     = [Delete ''user:42:score''] \<and>
   fst (redis_delete dict_client (key score anon) (obj_redis anon)) = Inr (PInt 0) \<and>
   \<not> truthy (PInt 0) \<and>
   fst (delete dict_client score anon) = Inr (PInt 0) \<and>
   obj_attrs (snd (delete dict_client score anon)) = obj_attrs anon"
proof -
  have present: "fst (redis_delete dict_client (key score user42) (obj_redis user42))
      = Inr (PInt 1)"
    by (simp add: dict_client_def user42_def key_def score_def)
  have missing: "fst (redis_delete dict_client (key score anon) (obj_redis anon))
      = Inr (PInt 0)"
    by (simp add: dict_client_def anon_def key_def score_def)
  have policy: "\<not> alwaysfetch_policy score user42"
    by (simp add: alwaysfetch_policy_def py_getattr_default_def score_def user42_def)
  have calls: "obj_calls (snd (delete dict_client score user42)) = [Delete ''user:42:score'']"
    by (simp add: delete_frame) (simp add: user42_def key_def score_def)
  from delete_then_read [OF present] delete_then_read [OF missing] present missing policy calls
  show ?thesis by simp
qed

section \<open>Commit\<close>

text \<open>
  C6. When the local value is the null indicator (the slot holds it, or the slot does
  not exist yet and \<open>value_of\<close> creates it), \<open>commit\<close> returns \<^verbatim>\<open>True\<close> and makes no
  call on the store, whose state is unchanged. When the local value is anything else
  and the serializer returns \<open>b\<close> for it, \<open>commit\<close> makes exactly one call, a set of
  \<open>b\<close> at the computed key, returns what the store answers (or raises what it raises),
  and leaves the holder's attributes alone.
\<close>

theorem commit_behaviour:
  "(fst (value_of p obj) = Inr PNull \<longrightarrow>
      fst (commit R p obj) = Inr (PBool True) \<and>
      obj_calls (snd (commit R p obj)) = obj_calls obj \<and>
      obj_redis (snd (commit R p obj)) = obj_redis obj) \<and>
   (fst (value_of p obj) = Inr v \<and> v \<noteq> PNull \<and> serialize p v = Inr b \<longrightarrow>
      fst (commit R p obj) = lift_exn (fst (redis_set R (key p obj) b (obj_redis obj))) \<and>
      obj_calls (snd (commit R p obj)) = obj_calls obj @ [Set (key p obj) b] \<and>
      obj_redis (snd (commit R p obj)) = snd (redis_set R (key p obj) b (obj_redis obj)) \<and>
      obj_attrs (snd (commit R p obj)) = obj_attrs obj)"
proof -
  have empty: "fst (value_of p obj) = Inr PNull \<longrightarrow>
      fst (commit R p obj) = Inr (PBool True) \<and>
      obj_calls (snd (commit R p obj)) = obj_calls obj \<and>
      obj_redis (snd (commit R p obj)) = obj_redis obj"
    by (simp add: commit_eq value_of_eq split: option.split)
  have loaded: "fst (value_of p obj) = Inr v \<and> v \<noteq> PNull \<and> serialize p v = Inr b \<longrightarrow>
      fst (commit R p obj) = lift_exn (fst (redis_set R (key p obj) b (obj_redis obj))) \<and>
      obj_calls (snd (commit R p obj)) = obj_calls obj @ [Set (key p obj) b] \<and>
      obj_redis (snd (commit R p obj)) = snd (redis_set R (key p obj) b (obj_redis obj)) \<and>
      obj_attrs (snd (commit R p obj)) = obj_attrs obj"
    by (auto simp add: commit_eq value_of_eq call_set_frame split: option.split)
  from empty loaded show ?thesis by simp
qed

theorem commit_behaviour_witness:
  "fst (value_of score user42) = Inr PNull \<and>
   fst (commit dict_client score user42) = Inr (PBool True) \<and>
   obj_calls (snd (commit dict_client score user42)) = [] \<and>
   fst (value_of score (set_local score user42 (PInt 9))) = Inr (PInt 9) \<and>
   fst (commit dict_client score (set_local score user42 (PInt 9))) = Inr (PBool True) \<and>
   obj_calls (snd (commit dict_client score (set_local score user42 (PInt 9))))
     = [Set ''user:42:score'' (PInt 9)] \<and>
   obj_redis (snd (commit dict_client score (set_local score user42 (PInt 9)))) ''user:42:score''
     = Some (PInt 9)"
proof -
  have empty: "fst (value_of score user42) = Inr PNull"
    by (simp add: value_of_eq user42_def)
  have loaded: "fst (value_of score (set_local score user42 (PInt 9))) = Inr (PInt 9)"
    by (simp add: value_of_eq)
  have codec: "serialize score (PInt 9) = Inr (PInt 9)"
    by (simp add: score_def)
  have k: "key score user42 = ''user:42:score''"
    by (simp add: key_def score_def user42_def)
  have calls: "obj_calls user42 = []"
    by (simp add: user42_def)
  from commit_behaviour [where p = score and obj = user42 and R = dict_client]
    commit_behaviour [where p = score and obj = "set_local score user42 (PInt 9)"
      and R = dict_client and v = "PInt 9" and b = "PInt 9"]
    empty loaded codec k calls
  show ?thesis by (simp add: dict_client_def)
qed

text \<open>
  C10. After a delete that the store answers with a true value the slot holds
  \<^verbatim>\<open>None\<close>, not the null indicator. A commit that follows therefore does not take
  the nothing-to-write branch: when the serializer returns \<open>b\<close> for \<^verbatim>\<open>None\<close>, the
  commit sets \<open>b\<close> at the key that was just deleted, as its only call, and returns what
  the store answers.
\<close>

theorem commit_after_delete:
  assumes "fst (redis_delete R (key p obj) (obj_redis obj)) = Inr ok" and "truthy ok"
    and "serialize p PNone = Inr b"
  shows "slot p (snd (delete R p obj)) = Some PNone \<and>
         fst (value_of p (snd (delete R p obj))) = Inr PNone \<and>
         fst (commit R p (snd (delete R p obj)))
           = lift_exn (fst (redis_set R (key p obj) b (obj_redis (snd (delete R p obj))))) \<and>
         obj_calls (snd (commit R p (snd (delete R p obj))))
           = obj_calls obj @ [Delete (key p obj), Set (key p obj) b] \<and>
         obj_redis (snd (commit R p (snd (delete R p obj))))
           = snd (redis_set R (key p obj) b (obj_redis (snd (delete R p obj))))"
proof -
  have slot: "slot p (snd (delete R p obj)) = Some PNone"
    using assms by (simp add: delete_attrs)
  then have commit: "commit R p (snd (delete R p obj))
      = call_set R (key p obj) b (snd (delete R p obj))"
    using assms by (simp add: commit_eq)
  from slot show ?thesis
    by (simp add: commit call_set_frame delete_frame value_of_eq)
qed

theorem commit_after_delete_witness:
  "fst (redis_delete dict_client (key score user42) (obj_redis user42)) = Inr (PInt 1) \<and>
   truthy (PInt 1) \<and> serialize score PNone = Inr PNone \<and>
   slot score (snd (delete dict_client score user42)) = Some PNone \<and>
   fst (commit dict_client score (snd (delete dict_client score user42))) = Inr (PBool True) \<and>
   obj_calls (snd (commit dict_client score (snd (delete dict_client score user42))))
     = [Delete ''user:42:score'', Set ''user:42:score'' PNone] \<and>
   obj_redis (snd (commit dict_client score (snd (delete dict_client score user42))))
     ''user:42:score'' = Some PNone"
proof -
  have answer: "fst (redis_delete dict_client (key score user42) (obj_redis user42))
      = Inr (PInt 1)"
    by (simp add: dict_client_def user42_def key_def score_def)
  have ok: "truthy (PInt 1)"
    by simp
  have codec: "serialize score PNone = Inr PNone"
    by (simp add: score_def)
  have k: "key score user42 = ''user:42:score''"
    by (simp add: key_def score_def user42_def)
  have calls: "obj_calls user42 = []"
    by (simp add: user42_def)
  from commit_after_delete [OF answer ok codec] answer codec k calls
  show ?thesis by (simp add: dict_client_def)
qed

section \<open>Fetch\<close>

text \<open>
  C5. Suppose the store answers the get at the computed key with \<open>response\<close>. Then
  \<open>fetch\<close> makes that one call. If the answer is \<^verbatim>\<open>None\<close> it returns the null
  indicator and stores it in the slot; if the answer is a value that the deserializer
  turns into \<open>v\<close> it returns \<open>v\<close> and stores it in the slot. Whatever the slot held
  before, whenever \<open>fetch\<close> returns, the slot holds what it returned. And if the store
  gives the same answer again, a second \<open>fetch\<close> right after the first returns the
  same result and leaves the same attributes as the first did.
\<close>

theorem fetch_behaviour:
  assumes "redis_get R (key p obj) (obj_redis obj) = (Inr response, s)"
  shows "obj_calls (snd (fetch R p obj)) = obj_calls obj @ [Get (key p obj)] \<and>
         obj_redis (snd (fetch R p obj)) = s \<and>
         (response = PNone \<longrightarrow>
            fst (fetch R p obj) = Inr PNull \<and> slot p (snd (fetch R p obj)) = Some PNull) \<and>
         (response \<noteq> PNone \<and> deserialize p response = Inr v \<longrightarrow>
            fst (fetch R p obj) = Inr v \<and> slot p (snd (fetch R p obj)) = Some v) \<and>
         (\<forall>w. fst (fetch R p obj) = Inr w \<longrightarrow> slot p (snd (fetch R p obj)) = Some w) \<and>
         (fst (redis_get R (key p obj) s) = Inr response \<longrightarrow>
            fst (fetch R p (snd (fetch R p obj))) = fst (fetch R p obj) \<and>
            obj_attrs (snd (fetch R p (snd (fetch R p obj)))) = obj_attrs (snd (fetch R p obj)))"
proof -
  from assms have answer: "fst (redis_get R (key p obj) (obj_redis obj)) = Inr response"
    by simp
  have frame: "obj_calls (snd (fetch R p obj)) = obj_calls obj @ [Get (key p obj)]"
    "obj_redis (snd (fetch R p obj)) = s"
    using assms by (simp_all add: fetch_frame)
  have absent: "response = PNone \<longrightarrow>
      fst (fetch R p obj) = Inr PNull \<and> slot p (snd (fetch R p obj)) = Some PNull"
    by (simp add: fetch_attrs [OF answer])
  have present: "response \<noteq> PNone \<and> deserialize p response = Inr v \<longrightarrow>
      fst (fetch R p obj) = Inr v \<and> slot p (snd (fetch R p obj)) = Some v"
    by (simp add: fetch_attrs [OF answer])
  have overwrite: "\<forall>w. fst (fetch R p obj) = Inr w \<longrightarrow> slot p (snd (fetch R p obj)) = Some w"
    by (simp add: fetch_returns)
  have again: "fst (redis_get R (key p obj) s) = Inr response \<longrightarrow>
      fst (fetch R p (snd (fetch R p obj))) = fst (fetch R p obj) \<and>
      obj_attrs (snd (fetch R p (snd (fetch R p obj)))) = obj_attrs (snd (fetch R p obj))"
  proof
    assume "fst (redis_get R (key p obj) s) = Inr response"
    then have second: "fst (redis_get R (key p (snd (fetch R p obj)))
        (obj_redis (snd (fetch R p obj)))) = Inr response"
      by (simp add: frame)
    show "fst (fetch R p (snd (fetch R p obj))) = fst (fetch R p obj) \<and>
      obj_attrs (snd (fetch R p (snd (fetch R p obj)))) = obj_attrs (snd (fetch R p obj))"
      by (simp add: fetch_attrs [OF second] fetch_attrs [OF answer] split: sum.split)
  qed
  from frame absent present overwrite again show ?thesis by simp
qed

theorem fetch_behaviour_witness:
  "redis_get dict_client (key score user42) (obj_redis user42)
     = (Inr (PBytes ''7''), obj_redis user42) \<and>
   deserialize score (PBytes ''7'') = Inr (PBytes ''7'') \<and>
   obj_calls (snd (fetch dict_client score user42)) = [Get ''user:42:score''] \<and>
   fst (fetch dict_client score user42) = Inr (PBytes ''7'') \<and>
   slot score (snd (fetch dict_client score user42)) = Some (PBytes ''7'') \<and>
   fst (fetch dict_client score (snd (fetch dict_client score user42))) = Inr (PBytes ''7'') \<and>
   slot score (snd (fetch dict_client score (snd (fetch dict_client score user42))))
     = Some (PBytes ''7'') \<and>
   redis_get dict_client (key score anon) (obj_redis (set_local score anon (PInt 5)))
     = (Inr PNone, obj_redis anon) \<and>
   fst (fetch dict_client score (set_local score anon (PInt 5))) = Inr PNull \<and>
   slot score (snd (fetch dict_client score (set_local score anon (PInt 5)))) = Some PNull"
proof -
  have k: "key score user42 = ''user:42:score''"
    by (simp add: key_def score_def user42_def)
  have answer: "redis_get dict_client (key score user42) (obj_redis user42)
      = (Inr (PBytes ''7''), obj_redis user42)"
    by (simp add: k) (simp add: dict_client_def user42_def)
  have codec: "deserialize score (PBytes ''7'') = Inr (PBytes ''7'')"
    by (simp add: score_def)
  have calls: "obj_calls user42 = []"
    by (simp add: user42_def)
  have missing: "redis_get dict_client (key score (set_local score anon (PInt 5)))
      (obj_redis (set_local score anon (PInt 5))) = (Inr PNone, obj_redis anon)"
    by (simp add: dict_client_def anon_def)
  from fetch_behaviour [OF answer, where v = "PBytes ''7''"]
    fetch_behaviour [OF missing, THEN conjunct2, THEN conjunct2, THEN conjunct1]
    answer missing codec k calls
  show ?thesis by simp
qed

section \<open>Write access\<close>

text \<open>
  C8. \<open>set_descr\<close> stores the value in the slot in every case, also when a commit that
  follows raises. When autocommit resolves to false it does nothing else: no call is
  made on the store and the store's state is unchanged. When autocommit resolves to
  true it goes on with \<open>commit\<close> on the updated holder, and raises whatever \<open>commit\<close>
  raises; for a value other than the null indicator that the serializer turns into
  \<open>b\<close>, that is exactly one set of \<open>b\<close> at the computed key.
\<close>

theorem write_access:
  "slot p (snd (set_descr R p obj v)) = Some v \<and>
   (\<not> autocommit_policy p obj \<longrightarrow>
      set_descr R p obj v = (Inr (), set_local p obj v) \<and>
      obj_calls (snd (set_descr R p obj v)) = obj_calls obj \<and>
      obj_redis (snd (set_descr R p obj v)) = obj_redis obj) \<and>
   (autocommit_policy p obj \<longrightarrow>
      snd (set_descr R p obj v) = snd (commit R p (set_local p obj v)) \<and>
      fst (set_descr R p obj v) = map_sum id (\<lambda>_. ()) (fst (commit R p (set_local p obj v)))) \<and>
   (autocommit_policy p obj \<and> v \<noteq> PNull \<and> serialize p v = Inr b \<longrightarrow>
      obj_calls (snd (set_descr R p obj v)) = obj_calls obj @ [Set (key p obj) b] \<and>
      obj_redis (snd (set_descr R p obj v)) = snd (redis_set R (key p obj) b (obj_redis obj)))"
proof -
  have stored: "slot p (snd (set_descr R p obj v)) = Some v"
    by (simp add: set_descr_eq commit_attrs_present [where v = v])
  have off: "\<not> autocommit_policy p obj \<longrightarrow>
      set_descr R p obj v = (Inr (), set_local p obj v) \<and>
      obj_calls (snd (set_descr R p obj v)) = obj_calls obj \<and>
      obj_redis (snd (set_descr R p obj v)) = obj_redis obj"
    by (simp add: set_descr_eq)
  have on: "autocommit_policy p obj \<longrightarrow>
      snd (set_descr R p obj v) = snd (commit R p (set_local p obj v)) \<and>
      fst (set_descr R p obj v) = map_sum id (\<lambda>_. ()) (fst (commit R p (set_local p obj v)))"
    by (simp add: set_descr_eq)
  have written: "autocommit_policy p obj \<and> v \<noteq> PNull \<and> serialize p v = Inr b \<longrightarrow>
      obj_calls (snd (set_descr R p obj v)) = obj_calls obj @ [Set (key p obj) b] \<and>
      obj_redis (snd (set_descr R p obj v)) = snd (redis_set R (key p obj) b (obj_redis obj))"
    by (simp add: set_descr_eq commit_loaded [where v = v and b = b] call_set_frame)
  from stored off on written show ?thesis by simp
qed

theorem write_access_witness:
  "autocommit_policy score anon \<and> serialize score (PInt 3) = Inr (PInt 3) \<and>
   slot score (snd (set_descr dict_client score anon (PInt 3))) = Some (PInt 3) \<and>
   obj_calls (snd (set_descr dict_client score anon (PInt 3))) = [Set ''score'' (PInt 3)] \<and>
   obj_redis (snd (set_descr dict_client score anon (PInt 3))) ''score'' = Some (PInt 3) \<and>
   \<not> autocommit_policy (score\<lparr>autocommit := PBool False\<rparr>) anon \<and>
   slot (score\<lparr>autocommit := PBool False\<rparr>)
     (snd (set_descr dict_client (score\<lparr>autocommit := PBool False\<rparr>) anon (PInt 3)))
     = Some (PInt 3) \<and>
   obj_calls (snd (set_descr dict_client (score\<lparr>autocommit := PBool False\<rparr>) anon (PInt 3)))
     = [] \<and>
   obj_redis (snd (set_descr dict_client (score\<lparr>autocommit := PBool False\<rparr>) anon (PInt 3)))
     ''score'' = None"
proof -
  have on: "autocommit_policy score anon"
    by (simp add: autocommit_policy_def py_getattr_default_def score_def anon_def)
  have off: "\<not> autocommit_policy (score\<lparr>autocommit := PBool False\<rparr>) anon"
    by (simp add: autocommit_policy_def)
  have codec: "serialize score (PInt 3) = Inr (PInt 3)"
    by (simp add: score_def)
  have k: "key score anon = ''score''"
    by (simp add: key_def score_def anon_def)
  have start: "obj_calls anon = []" "obj_redis anon = Map.empty"
    by (simp_all add: anon_def)
  have store: "redis_set dict_client ''score'' (PInt 3) Map.empty
      = (Inr (PBool True), [''score'' \<mapsto> PInt 3])"
    by (simp add: dict_client_def)
  note with_commit = write_access [where p = score and R = dict_client and obj = anon
      and v = "PInt 3" and b = "PInt 3"]
  note without_commit = write_access [where p = "score\<lparr>autocommit := PBool False\<rparr>"
      and R = dict_client and obj = anon and v = "PInt 3"]
  have stored: "slot score (snd (set_descr dict_client score anon (PInt 3))) = Some (PInt 3)"
    using with_commit by (rule conjunct1)
  have written:
    "obj_calls (snd (set_descr dict_client score anon (PInt 3))) = [Set ''score'' (PInt 3)]"
    "obj_redis (snd (set_descr dict_client score anon (PInt 3))) ''score'' = Some (PInt 3)"
    using with_commit [THEN conjunct2, THEN conjunct2, THEN conjunct2] on codec k start store
    by simp_all
  have stored': "slot (score\<lparr>autocommit := PBool False\<rparr>)
      (snd (set_descr dict_client (score\<lparr>autocommit := PBool False\<rparr>) anon (PInt 3)))
      = Some (PInt 3)"
    using without_commit by (rule conjunct1)
  have silent:
    "obj_calls (snd (set_descr dict_client (score\<lparr>autocommit := PBool False\<rparr>) anon (PInt 3)))
       = []"
    "obj_redis (snd (set_descr dict_client (score\<lparr>autocommit := PBool False\<rparr>) anon (PInt 3)))
       ''score'' = None"
    using without_commit [THEN conjunct2, THEN conjunct1] off start
    by simp_all
  from on off codec stored written stored' silent show ?thesis
    by simp
qed

section \<open>Read access\<close>

text \<open>
  C2. \<open>get_bound\<close> first reads the local value with \<open>value_of\<close>. It then runs
  \<open>fetch\<close> exactly when that value is the null indicator or alwaysfetch resolves to
  true, and otherwise makes no call on the store. What it gives back is settled in
  every case. On a slot that holds a value other than the null indicator, with
  alwaysfetch resolving to false, it returns that value and leaves the holder as it
  was. When it fetches and the store or the codec raises, that exception is what it
  raises. In every other case the slot holds a value afterwards: if that value is the
  null indicator it raises the key error carrying the computed key, and if not it
  returns that value. So the key error for the computed key is raised exactly when the
  slot holds the null indicator after a fetch that did not raise.
\<close>

theorem read_access:
  fixes R :: "'s client" and p :: property and obj :: "'s owner"
  defines "fetching \<equiv> fst (value_of p obj) = Inr PNull \<or> alwaysfetch_policy p obj"
    and "fetched \<equiv> fetch R p (snd (value_of p obj))"
  shows "snd (get_bound R p obj) = (if fetching then snd fetched else snd (value_of p obj)) \<and>
         obj_calls (snd (get_bound R p obj)) = obj_calls obj @
           (if fetching then [Get (key p obj)] else []) \<and>
         (\<forall>v. slot p obj = Some v \<and> v \<noteq> PNull \<and> \<not> alwaysfetch_policy p obj \<longrightarrow>
            get_bound R p obj = (Inr v, obj)) \<and>
         (\<forall>e. fetching \<and> fst fetched = Inl e \<longrightarrow>
            fst (get_bound R p obj) = Inl e \<and> (\<exists>x. e = External x)) \<and>
         (\<not> (fetching \<and> (\<exists>e. fst fetched = Inl e)) \<longrightarrow>
            (\<exists>v. slot p (snd (get_bound R p obj)) = Some v \<and>
                 fst (get_bound R p obj) =
                   (if v = PNull then Inl (RedisKeyError (key p obj)) else Inr v))) \<and>
         (fst (get_bound R p obj) = Inl (RedisKeyError (key p obj)) \<longleftrightarrow>
            slot p (snd (get_bound R p obj)) = Some PNull \<and>
            \<not> (fetching \<and> (\<exists>e. fst fetched = Inl e)))"
proof (cases fetching)
  case False
  then obtain v where v: "slot p obj = Some v" "v \<noteq> PNull"
    by (auto simp add: fetching_def value_of_eq split: option.splits)
  from False have policy: "\<not> alwaysfetch_policy p obj"
    by (simp add: fetching_def)
  with v have run: "get_bound R p obj = (Inr v, obj)"
    by (simp add: get_bound_cached)
  from v have same: "snd (value_of p obj) = obj"
    by (simp add: value_of_eq)
  from False v policy show ?thesis
    by (simp add: run same)
next
  case True
  define obj1 where "obj1 = snd (value_of p obj)"
  have fetched: "fetched = fetch R p obj1"
    by (simp add: fetched_def obj1_def)
  have v1: "\<exists>v. value_of p obj = (Inr v, obj1) \<and> (v = PNull \<or> alwaysfetch_policy p obj1)"
    using True by (auto simp add: fetching_def obj1_def value_of_eq split: option.splits)
  have frame1: "obj_calls obj1 = obj_calls obj" "key p obj1 = key p obj"
    by (simp_all add: obj1_def value_of_eq split: option.split)
  have miss: "\<not> (\<exists>v. slot p obj = Some v \<and> v \<noteq> PNull \<and> \<not> alwaysfetch_policy p obj)"
    using True by (auto simp add: fetching_def value_of_eq)
  from v1 have unfold: "get_bound R p obj =
      (case fetch R p obj1 of
         (Inl e, obj2) \<Rightarrow> (Inl e, obj2)
       | (Inr v', obj2) \<Rightarrow>
           (if v' = PNull then (Inl (RedisKeyError (key p obj2)), obj2) else (Inr v', obj2)))"
    by (auto simp add: get_bound_def)
  show ?thesis
  proof (cases "fst (fetch R p obj1)")
    case (Inl e)
    from fetch_raises [OF Inl] obtain x where x: "e = External x"
      by blast
    from unfold Inl have run: "get_bound R p obj = (Inl e, snd (fetch R p obj1))"
      by (cases "fetch R p obj1") simp
    from True Inl x miss show ?thesis
      by (auto simp add: run fetched obj1_def [symmetric] fetch_frame frame1)
  next
    case (Inr w)
    from fetch_returns [OF Inr] have slot: "slot p (snd (fetch R p obj1)) = Some w" .
    from unfold Inr have run: "get_bound R p obj =
        (if w = PNull then Inl (RedisKeyError (key p obj)) else Inr w, snd (fetch R p obj1))"
      using fetch_key [of p R p obj1] by (cases "fetch R p obj1") (simp add: frame1)
    from True Inr slot miss show ?thesis
      by (auto simp add: run fetched obj1_def [symmetric] fetch_frame frame1)
  qed
qed

theorem read_access_witness:
  "slot score (set_local score user42 (PInt 5)) = Some (PInt 5) \<and>
   \<not> alwaysfetch_policy score (set_local score user42 (PInt 5)) \<and>
   fst (get_bound dict_client score (set_local score user42 (PInt 5))) = Inr (PInt 5) \<and>
   obj_calls (snd (get_bound dict_client score (set_local score user42 (PInt 5)))) = [] \<and>
   fst (value_of score user42) = Inr PNull \<and>
   fst (fetch dict_client score (snd (value_of score user42))) = Inr (PBytes ''7'') \<and>
   fst (get_bound dict_client score user42) = Inr (PBytes ''7'') \<and>
   obj_calls (snd (get_bound dict_client score user42)) = [Get ''user:42:score''] \<and>
   slot score (snd (get_bound dict_client score user42)) = Some (PBytes ''7'') \<and>
   fst (value_of score anon) = Inr PNull \<and>
   fst (fetch dict_client score (snd (value_of score anon))) = Inr PNull \<and>
   fst (get_bound dict_client score anon) = Inl (RedisKeyError ''score'') \<and>
   obj_calls (snd (get_bound dict_client score anon)) = [Get ''score''] \<and>
   slot score (snd (get_bound dict_client score anon)) = Some PNull"
proof -
  note hit = read_access [where R = dict_client and p = score
      and obj = "set_local score user42 (PInt 5)"]
  note load = read_access [where R = dict_client and p = score and obj = user42]
  note miss = read_access [where R = dict_client and p = score and obj = anon]
  have k: "key score user42 = ''user:42:score''" "key score anon = ''score''"
    by (simp_all add: key_def score_def user42_def anon_def)
  have calls: "obj_calls user42 = []" "obj_calls anon = []"
    by (simp_all add: user42_def anon_def)
  have policy: "\<not> alwaysfetch_policy score user42" "\<not> alwaysfetch_policy score anon"
    by (simp_all add: alwaysfetch_policy_def py_getattr_default_def score_def user42_def
        anon_def)
  have local: "fst (value_of score user42) = Inr PNull" "fst (value_of score anon) = Inr PNull"
    by (simp_all add: value_of_eq user42_def anon_def)
  have answer1: "fst (redis_get dict_client (key score (snd (value_of score user42)))
      (obj_redis (snd (value_of score user42)))) = Inr (PBytes ''7'')"
    by (simp add: value_of_eq key_def score_def user42_def dict_client_def
        set_local_def py_setattr_def)
  have answer2: "fst (redis_get dict_client (key score (snd (value_of score anon)))
      (obj_redis (snd (value_of score anon)))) = Inr PNone"
    by (simp add: value_of_eq key_def score_def anon_def dict_client_def
        set_local_def py_setattr_def)
  have fetch1: "fst (fetch dict_client score (snd (value_of score user42))) = Inr (PBytes ''7'')"
    "slot score (snd (fetch dict_client score (snd (value_of score user42))))
       = Some (PBytes ''7'')"
    by (simp_all add: fetch_attrs [OF answer1]) (simp_all add: score_def)
  have fetch2: "fst (fetch dict_client score (snd (value_of score anon))) = Inr PNull"
    "slot score (snd (fetch dict_client score (snd (value_of score anon)))) = Some PNull"
    by (simp_all add: fetch_attrs [OF answer2])
  have cached: "fst (get_bound dict_client score (set_local score user42 (PInt 5)))
        = Inr (PInt 5)"
      "obj_calls (snd (get_bound dict_client score (set_local score user42 (PInt 5)))) = []"
    using hit [THEN conjunct2, THEN conjunct2, THEN conjunct1] policy calls
    by simp_all
  have state1: "snd (get_bound dict_client score user42)
      = snd (fetch dict_client score (snd (value_of score user42)))"
    using load [THEN conjunct1] local by simp
  have state2: "snd (get_bound dict_client score anon)
      = snd (fetch dict_client score (snd (value_of score anon)))"
    using miss [THEN conjunct1] local by simp
  have calls1: "obj_calls (snd (get_bound dict_client score user42)) = [Get ''user:42:score'']"
    using load [THEN conjunct2, THEN conjunct1] local k calls by simp
  have calls2: "obj_calls (snd (get_bound dict_client score anon)) = [Get ''score'']"
    using miss [THEN conjunct2, THEN conjunct1] local k calls by simp
  have loaded: "fst (get_bound dict_client score user42) = Inr (PBytes ''7'')"
    using load [THEN conjunct2, THEN conjunct2, THEN conjunct2, THEN conjunct2, THEN conjunct1]
      fetch1
    by (simp add: state1)
  have raised: "fst (get_bound dict_client score anon) = Inl (RedisKeyError ''score'')"
    using miss [THEN conjunct2, THEN conjunct2, THEN conjunct2, THEN conjunct2, THEN conjunct1]
      fetch2 k
    by (simp add: state2)
  from policy local fetch1 fetch2 cached calls1 calls2 loaded raised show ?thesis
    by (simp add: state1 state2)
qed

end
